theory Spec2Isabelle
  imports Complex_Main
begin

section \<open>The strategy template: data model\<close>

text \<open>
  The module \<^verbatim>\<open>strategy_template.py\<close> defines one class, \<^verbatim>\<open>Strategy\<close>, whose methods
  the trading host calls. The types it mentions come from the host's SDK, which the
  template imports and does not define. They are modelled here as far as the template
  refers to them.
\<close>

subsection \<open>Values of the SDK\<close>

text \<open>
  Modelled from the spec: the flags of \<^verbatim>\<open>StrategyConfig\<close> (section 3 of the
  specification names these four), the members of \<^verbatim>\<open>ExitReason\<close> that the template
  uses, and the status variants of \<^verbatim>\<open>OrderUpdate\<close>. The declarations themselves are in
  the SDK.
\<close>

datatype data_update = ORDER_BOOK | TICKER | PUBLIC_TRADE_HISTORY | FUNDS

datatype ExitReason = ERROR | FINISHED_SUCCESSFULLY

datatype order_status =
  FILLED | ADAPTED | CANCELED | NO_CHANGE | REAPPEARED | DISAPPEARED
  | PARTIALLY_FILLED | ADAPTED_AND_FILLED | OTHER_CHANGE

datatype RoundingType = ROUND

text \<open>
  \<^verbatim>\<open>StrategyConfig\<close> is an object with the attribute \<^verbatim>\<open>required_data_updates\<close>; whatever
  else the SDK keeps in it is the extension part of the record scheme.
\<close>

record StrategyConfig =
  required_data_updates :: "data_update set"

text \<open>
  Market data is opaque to the template: it never reads a field of an order book, a
  ticker, a public trade or a funds entry.
\<close>

typedecl OrderBook
typedecl Ticker
typedecl PublicTrade
typedecl FundsEntry

text \<open>
  The template's comments speak of \<^verbatim>\<open>Order.id\<close>; the only attribute of an update that
  the template reads is \<^verbatim>\<open>update.status\<close>.
\<close>

record Order =
  order_id :: int

record OrderUpdate =
  status :: order_status

text \<open>
  The trading capability manager that \<^verbatim>\<open>get_trading_capability_manager()\<close> returns,
  with the four methods that \<^verbatim>\<open>start\<close> calls. Python floats are taken as real numbers:
  the template only hands them to the manager and compares what comes back.
\<close>

record TradingCapabilityManager =
  round_amount :: "real \<Rightarrow> RoundingType \<Rightarrow> real"
  get_min_buy_amount :: "real \<Rightarrow> real"
  get_max_buy_amount :: "real \<Rightarrow> real"
  is_order_valid :: "bool \<Rightarrow> real \<Rightarrow> real \<Rightarrow> bool"

subsection \<open>What a call does besides changing the object\<close>

text \<open>
  A call of the plugin can print, and it can call back into the host. The host services
  that change something outside the plugin are \<^verbatim>\<open>place_limit_order\<close>, \<^verbatim>\<open>cancel_order\<close>
  and \<^verbatim>\<open>exit\<close>. Each method returns the list of these events in the order they happen.
\<close>

datatype pyval =
  Str string
  | StatusVal order_status
  | FundsVal "string \<rightharpoonup> FundsEntry"

datatype effect =
  Print "pyval list"
  | PlaceLimitOrder bool real real
  | CancelOrder int
  | Exit ExitReason "string option"

datatype error = AssertionError

fun exit_calls :: "effect list \<Rightarrow> (ExitReason \<times> string option) list" where
  "exit_calls [] = []"
| "exit_calls (Exit r m # es) = (r, m) # exit_calls es"
| "exit_calls (e # es) = exit_calls es"

fun order_calls :: "effect list \<Rightarrow> effect list" where
  "order_calls [] = []"
| "order_calls (PlaceLimitOrder b a p # es) = PlaceLimitOrder b a p # order_calls es"
| "order_calls (CancelOrder i # es) = CancelOrder i # order_calls es"
| "order_calls (e # es) = order_calls es"

subsection \<open>The plugin object\<close>

text \<open>
  The three attributes that \<^verbatim>\<open>__init__\<close> creates. \<^verbatim>\<open>waiting_cancel_order_id\<close> is either
  \<^verbatim>\<open>None\<close> or an order id.
\<close>

record Strategy =
  waiting_order_id :: int
  waiting_cancel_order_id :: "int option"
  strategy_state :: "string \<rightharpoonup> string"

definition Strategy_init :: Strategy where
  "Strategy_init =
     \<lparr> waiting_order_id = 0,
       waiting_cancel_order_id = None,
       strategy_state = Map.empty \<rparr>"

section \<open>The methods\<close>

subsection \<open>Strategy logic\<close>

definition init :: "Strategy \<Rightarrow> effect list \<times> Strategy" where
  "init self = ([Print [Str ''Strategy init function!'']], self)"

text \<open>
  \<^verbatim>\<open>get_strategy_config\<close> builds a fresh \<^verbatim>\<open>StrategyConfig()\<close> and assigns one attribute.
  The freshly built object is the parameter \<open>new_config\<close>.
\<close>

definition get_strategy_config ::
  "'z StrategyConfig_scheme \<Rightarrow> Strategy \<Rightarrow> 'z StrategyConfig_scheme" where
  "get_strategy_config new_config self =
     (let s = new_config;
          s = s\<lparr>required_data_updates :=
                  {ORDER_BOOK, TICKER, PUBLIC_TRADE_HISTORY, FUNDS}\<rparr>
      in s)"

definition save_strategy_state :: "Strategy \<Rightarrow> (string \<rightharpoonup> string)" where
  "save_strategy_state self = strategy_state self"

definition restore_strategy_state ::
  "Strategy \<Rightarrow> (string \<rightharpoonup> string) \<Rightarrow> effect list \<times> Strategy" where
  "restore_strategy_state self new_state = ([], self\<lparr>strategy_state := new_state\<rparr>)"

text \<open>
  \<^verbatim>\<open>start\<close> prints twice, rounds the amount and makes three assertions, in this order.
  A failed \<^verbatim>\<open>assert\<close> raises \<^verbatim>\<open>AssertionError\<close>; the prints have happened by then and no
  attribute has been assigned. The call that would place the order is commented out in
  the source.
\<close>

definition start ::
  "TradingCapabilityManager \<Rightarrow> Strategy \<Rightarrow> effect list \<times> (error + Strategy)" where
  "start tcm self =
     (let out = [Print [Str ''Strategy start function!''], Print [Str ''placing order'']];
          buy = True;
          amount = 0.002;
          price = 0.0001;
          amount = round_amount tcm amount ROUND
      in if \<not> (get_min_buy_amount tcm price \<le> amount) then (out, Inl AssertionError)
         else if \<not> (get_max_buy_amount tcm price \<ge> amount) then (out, Inl AssertionError)
         else if \<not> is_order_valid tcm buy amount price then (out, Inl AssertionError)
         else (out, Inr self))"

definition stop :: "Strategy \<Rightarrow> effect list \<times> Strategy" where
  "stop self = ([Print [Str ''Strategy stop function!'']], self)"

definition suspend :: "Strategy \<Rightarrow> effect list \<times> Strategy" where
  "suspend self = ([Print [Str ''Strategy suspend called'']], self)"

definition unsuspend :: "Strategy \<Rightarrow> effect list \<times> Strategy" where
  "unsuspend self = ([Print [Str ''Strategy unsuspend called'']], self)"

subsection \<open>Public data updates\<close>

definition on_new_order_book :: "Strategy \<Rightarrow> OrderBook \<Rightarrow> effect list \<times> Strategy" where
  "on_new_order_book self order_book = ([], self)"

definition on_new_ticker :: "Strategy \<Rightarrow> Ticker \<Rightarrow> effect list \<times> Strategy" where
  "on_new_ticker self ticker = ([], self)"

definition on_new_public_trades ::
  "Strategy \<Rightarrow> PublicTrade list \<Rightarrow> effect list \<times> Strategy" where
  "on_new_public_trades self trades = ([], self)"

subsection \<open>Private updates\<close>

definition on_new_funds ::
  "Strategy \<Rightarrow> (string \<rightharpoonup> FundsEntry) \<Rightarrow> effect list \<times> Strategy" where
  "on_new_funds self funds = ([Print [Str ''Strategy funds function!'', FundsVal funds]], self)"

definition on_order_update :: "Strategy \<Rightarrow> OrderUpdate \<Rightarrow> effect list \<times> Strategy" where
  "on_order_update self update =
     (let out = [Print [Str ''Order update status was: '', StatusVal (status update)]]
      in if status update = FILLED then (out, self)
         else if status update = ADAPTED then (out, self)
         else if status update = CANCELED then (out, self)
         else if status update = NO_CHANGE then (out, self)
         else if status update = REAPPEARED then (out, self)
         else if status update = DISAPPEARED then (out, self)
         else if status update = PARTIALLY_FILLED then (out, self)
         else if status update = ADAPTED_AND_FILLED then (out, self)
         else if status update = OTHER_CHANGE then (out, self)
         else (out, self))"

definition on_place_order_success ::
  "Strategy \<Rightarrow> int \<Rightarrow> Order \<Rightarrow> effect list \<times> Strategy" where
  "on_place_order_success self place_order_id order =
     (if waiting_order_id self = place_order_id
      then ([Print [Str ''Strategy place order success''],
             Print [Str ''Had waiting order id'']], self)
      else ([Print [Str ''Strategy place order success''],
             Print [Str ''Did not have waiting order id'']], self))"

definition on_place_order_error_string ::
  "Strategy \<Rightarrow> int \<Rightarrow> string \<Rightarrow> effect list \<times> Strategy" where
  "on_place_order_error_string self place_order_id err = ([Exit ERROR (Some err)], self)"

text \<open>
  \<^verbatim>\<open>order_id\<close> is an \<^verbatim>\<open>int\<close>, so \<^verbatim>\<open>self.waiting_cancel_order_id == order_id\<close> holds only
  when the attribute holds that integer; \<^verbatim>\<open>None\<close> equals no integer.
\<close>

definition on_cancel_order_success ::
  "Strategy \<Rightarrow> int \<Rightarrow> Order \<Rightarrow> effect list \<times> Strategy" where
  "on_cancel_order_success self oid canceled_order =
     (if waiting_cancel_order_id self = Some oid
      then ([Print [Str ''Strategy cancel order success''],
             Print [Str ''Had waiting cancel id''],
             Exit FINISHED_SUCCESSFULLY None], self)
      else ([Print [Str ''Strategy cancel order success'']], self))"

definition on_cancel_order_error_string ::
  "Strategy \<Rightarrow> int \<Rightarrow> string \<Rightarrow> effect list \<times> Strategy" where
  "on_cancel_order_error_string self oid err = ([Exit ERROR (Some err)], self)"

section \<open>The host's view: sequences of calls\<close>

text \<open>
  The host drives the plugin by calling its methods one after the other. A call that
  raises leaves the object as it was when the exception left the method; the only method
  that can raise is \<^verbatim>\<open>start\<close>, which assigns nothing. \<^verbatim>\<open>get_strategy_config\<close> and
  \<^verbatim>\<open>save_strategy_state\<close> only return a value.
\<close>

datatype call =
  Init
  | GetStrategyConfig
  | SaveStrategyState
  | RestoreStrategyState "string \<rightharpoonup> string"
  | Start TradingCapabilityManager
  | Stop
  | Suspend
  | Unsuspend
  | OnNewOrderBook OrderBook
  | OnNewTicker Ticker
  | OnNewPublicTrades "PublicTrade list"
  | OnNewFunds "string \<rightharpoonup> FundsEntry"
  | OnOrderUpdate OrderUpdate
  | OnPlaceOrderSuccess int Order
  | OnPlaceOrderErrorString int string
  | OnCancelOrderSuccess int Order
  | OnCancelOrderErrorString int string

fun step :: "Strategy \<Rightarrow> call \<Rightarrow> effect list \<times> (error + Strategy)" where
  "step self Init = map_prod id Inr (init self)"
| "step self GetStrategyConfig = ([], Inr self)"
| "step self SaveStrategyState = ([], Inr self)"
| "step self (RestoreStrategyState m) = map_prod id Inr (restore_strategy_state self m)"
| "step self (Start tcm) = start tcm self"
| "step self Stop = map_prod id Inr (stop self)"
| "step self Suspend = map_prod id Inr (suspend self)"
| "step self Unsuspend = map_prod id Inr (unsuspend self)"
| "step self (OnNewOrderBook b) = map_prod id Inr (on_new_order_book self b)"
| "step self (OnNewTicker t) = map_prod id Inr (on_new_ticker self t)"
| "step self (OnNewPublicTrades ts) = map_prod id Inr (on_new_public_trades self ts)"
| "step self (OnNewFunds f) = map_prod id Inr (on_new_funds self f)"
| "step self (OnOrderUpdate u) = map_prod id Inr (on_order_update self u)"
| "step self (OnPlaceOrderSuccess i ordr) = map_prod id Inr (on_place_order_success self i ordr)"
| "step self (OnPlaceOrderErrorString i e) =
     map_prod id Inr (on_place_order_error_string self i e)"
| "step self (OnCancelOrderSuccess i ordr) =
     map_prod id Inr (on_cancel_order_success self i ordr)"
| "step self (OnCancelOrderErrorString i e) =
     map_prod id Inr (on_cancel_order_error_string self i e)"

definition after :: "Strategy \<Rightarrow> call \<Rightarrow> Strategy" where
  "after self c = (case snd (step self c) of Inl e \<Rightarrow> self | Inr self' \<Rightarrow> self')"

fun run :: "Strategy \<Rightarrow> call list \<Rightarrow> Strategy" where
  "run self [] = self"
| "run self (c # cs) = run (after self c) cs"

section \<open>Two trading capability managers to run \<open>start\<close> on\<close>

text \<open>
  Both leave the amount as it is and allow buy amounts between 0 and 1. The first
  accepts every order, the second rejects every order.
\<close>

definition tcm_accepting :: TradingCapabilityManager where
  "tcm_accepting =
     \<lparr> round_amount = (\<lambda>amount rounding. amount),
       get_min_buy_amount = (\<lambda>price. 0),
       get_max_buy_amount = (\<lambda>price. 1),
       is_order_valid = (\<lambda>buy amount price. True) \<rparr>"

definition tcm_rejecting :: TradingCapabilityManager where
  "tcm_rejecting =
     \<lparr> round_amount = (\<lambda>amount rounding. amount),
       get_min_buy_amount = (\<lambda>price. 0),
       get_max_buy_amount = (\<lambda>price. 1),
       is_order_valid = (\<lambda>buy amount price. False) \<rparr>"

section \<open>Properties\<close>

subsection \<open>Helper facts about call sequences\<close>

lemma after_waiting_cancel_order_id:
  "waiting_cancel_order_id (after self c) = waiting_cancel_order_id self"
  by (cases c)
    (simp_all add: after_def init_def restore_strategy_state_def start_def stop_def
      suspend_def unsuspend_def on_new_order_book_def on_new_ticker_def
      on_new_public_trades_def on_new_funds_def on_order_update_def
      on_place_order_success_def on_place_order_error_string_def
      on_cancel_order_success_def on_cancel_order_error_string_def Let_def)

lemma run_waiting_cancel_order_id:
  "waiting_cancel_order_id (run self cs) = waiting_cancel_order_id self"
  by (induction cs arbitrary: self) (simp_all add: after_waiting_cancel_order_id)

subsection \<open>Saving and restoring the state\<close>

text \<open>
  C1. For every plugin object and every mapping \<open>m\<close> from strings to strings: after the
  calls \<^verbatim>\<open>save_strategy_state()\<close> and \<^verbatim>\<open>restore_strategy_state(m)\<close>, in this order, the
  next \<^verbatim>\<open>save_strategy_state()\<close> returns \<open>m\<close> itself, keys and values as they were given.
\<close>

theorem save_restore_save_roundtrip:
  "save_strategy_state (run self [SaveStrategyState, RestoreStrategyState m]) = m"
  by (simp add: after_def save_strategy_state_def restore_strategy_state_def)

text \<open>
  C6. \<^verbatim>\<open>restore_strategy_state(m)\<close> puts \<open>m\<close> in place of the whole of \<^verbatim>\<open>strategy_state\<close>,
  whatever was there before, and leaves \<^verbatim>\<open>waiting_order_id\<close> and
  \<^verbatim>\<open>waiting_cancel_order_id\<close> as they were. It prints nothing and calls no host service.
\<close>

theorem restore_replaces_state_only:
  "strategy_state (snd (restore_strategy_state self m)) = m
   \<and> waiting_order_id (snd (restore_strategy_state self m)) = waiting_order_id self
   \<and> waiting_cancel_order_id (snd (restore_strategy_state self m))
       = waiting_cancel_order_id self
   \<and> fst (restore_strategy_state self m) = []"
  by (simp add: restore_strategy_state_def)

text \<open>
  C7. On a freshly constructed plugin, \<^verbatim>\<open>save_strategy_state()\<close> returns the empty
  mapping.
\<close>

theorem fresh_save_is_empty: "save_strategy_state Strategy_init = Map.empty"
  by (simp add: save_strategy_state_def Strategy_init_def)

subsection \<open>The configuration\<close>

text \<open>
  C2. For every plugin object, the configuration that \<^verbatim>\<open>get_strategy_config()\<close> returns
  has exactly the four flags \<^verbatim>\<open>ORDER_BOOK\<close>, \<^verbatim>\<open>TICKER\<close>, \<^verbatim>\<open>PUBLIC_TRADE_HISTORY\<close> and
  \<^verbatim>\<open>FUNDS\<close> as its required data updates, whatever the SDK's constructor had put there.
\<close>

theorem config_required_data_updates:
  "required_data_updates (get_strategy_config new_config self)
     = {ORDER_BOOK, TICKER, PUBLIC_TRADE_HISTORY, FUNDS}"
  by (simp add: get_strategy_config_def)

text \<open>
  C5. \<^verbatim>\<open>get_strategy_config()\<close> returns the same configuration in any two states of the
  plugin object (in particular in any two states that sequences of calls reach from
  construction), given that the SDK's constructor returns the same fresh object.
\<close>

theorem config_same_in_every_state:
  "get_strategy_config new_config self1 = get_strategy_config new_config self2
   \<and> get_strategy_config new_config (run Strategy_init cs1)
       = get_strategy_config new_config (run Strategy_init cs2)"
  by (simp add: get_strategy_config_def)

subsection \<open>The order example in \<open>start\<close>\<close>

text \<open>
  C3, as the specification states it, says that \<^verbatim>\<open>start()\<close> aborts exactly when the
  minimum or the maximum comparison fails. With a manager whose limits admit the rounded
  amount and whose \<^verbatim>\<open>is_order_valid\<close> answers \<^verbatim>\<open>False\<close>, both comparisons hold and
  \<^verbatim>\<open>start()\<close> still raises \<^verbatim>\<open>AssertionError\<close>: the third assertion fails.
\<close>

theorem start_two_assertions_counterexample:
  "get_min_buy_amount tcm_rejecting 0.0001 \<le> round_amount tcm_rejecting 0.002 ROUND
   \<and> get_max_buy_amount tcm_rejecting 0.0001 \<ge> round_amount tcm_rejecting 0.002 ROUND
   \<and> snd (start tcm_rejecting Strategy_init) = Inl AssertionError"
  by (simp add: start_def tcm_rejecting_def)

text \<open>
  C3, amended. \<^verbatim>\<open>start()\<close> prints two lines, rounds the amount and makes three
  assertions: the minimum buy amount is at most the rounded amount, the maximum buy
  amount is at least the rounded amount, and \<^verbatim>\<open>is_order_valid(buy, amount, price)\<close>
  holds. It raises \<^verbatim>\<open>AssertionError\<close> exactly when one of the three fails, and otherwise
  returns with the plugin object unchanged.
\<close>

theorem start_aborts_iff_an_assertion_fails:
  "(snd (start tcm self) = Inl AssertionError) =
     (\<not> get_min_buy_amount tcm 0.0001 \<le> round_amount tcm 0.002 ROUND
      \<or> \<not> get_max_buy_amount tcm 0.0001 \<ge> round_amount tcm 0.002 ROUND
      \<or> \<not> is_order_valid tcm True (round_amount tcm 0.002 ROUND) 0.0001)
   \<and> (snd (start tcm self) = Inr self) =
     (get_min_buy_amount tcm 0.0001 \<le> round_amount tcm 0.002 ROUND
      \<and> get_max_buy_amount tcm 0.0001 \<ge> round_amount tcm 0.002 ROUND
      \<and> is_order_valid tcm True (round_amount tcm 0.002 ROUND) 0.0001)
   \<and> fst (start tcm self)
       = [Print [Str ''Strategy start function!''], Print [Str ''placing order'']]"
  by (simp add: start_def Let_def)

theorem start_aborts_iff_an_assertion_fails_witness:
  "snd (start tcm_accepting Strategy_init) = Inr Strategy_init
   \<and> snd (start tcm_rejecting Strategy_init) = Inl AssertionError"
  using start_aborts_iff_an_assertion_fails [of tcm_accepting Strategy_init]
    start_aborts_iff_an_assertion_fails [of tcm_rejecting Strategy_init]
  by (simp add: tcm_accepting_def tcm_rejecting_def)

subsection \<open>Callbacks\<close>

text \<open>
  C4. For every plugin object, identifier and error string \<open>e\<close>, each of
  \<^verbatim>\<open>on_place_order_error_string\<close> and \<^verbatim>\<open>on_cancel_order_error_string\<close> does one thing:
  it calls the host's \<^verbatim>\<open>exit\<close> with the reason \<^verbatim>\<open>ERROR\<close> and the message \<open>e\<close>.
\<close>

theorem error_callbacks_exit_with_error:
  "fst (on_place_order_error_string self i e) = [Exit ERROR (Some e)]
   \<and> exit_calls (fst (on_place_order_error_string self i e)) = [(ERROR, Some e)]
   \<and> fst (on_cancel_order_error_string self i e) = [Exit ERROR (Some e)]
   \<and> exit_calls (fst (on_cancel_order_error_string self i e)) = [(ERROR, Some e)]"
  by (simp add: on_place_order_error_string_def on_cancel_order_error_string_def)

text \<open>
  C8. Each of \<^verbatim>\<open>on_new_order_book\<close>, \<^verbatim>\<open>on_new_ticker\<close>, \<^verbatim>\<open>on_new_public_trades\<close>,
  \<^verbatim>\<open>on_new_funds\<close> and \<^verbatim>\<open>on_order_update\<close> (for an update of any status) returns the
  plugin object as it was, all three attributes included, and calls neither \<^verbatim>\<open>exit\<close>
  nor \<^verbatim>\<open>place_limit_order\<close> nor \<^verbatim>\<open>cancel_order\<close>.
\<close>

theorem data_callbacks_change_nothing:
  "snd (on_new_order_book self b) = self
   \<and> exit_calls (fst (on_new_order_book self b)) = []
   \<and> order_calls (fst (on_new_order_book self b)) = []
   \<and> snd (on_new_ticker self t) = self
   \<and> exit_calls (fst (on_new_ticker self t)) = []
   \<and> order_calls (fst (on_new_ticker self t)) = []
   \<and> snd (on_new_public_trades self ts) = self
   \<and> exit_calls (fst (on_new_public_trades self ts)) = []
   \<and> order_calls (fst (on_new_public_trades self ts)) = []
   \<and> snd (on_new_funds self f) = self
   \<and> exit_calls (fst (on_new_funds self f)) = []
   \<and> order_calls (fst (on_new_funds self f)) = []
   \<and> snd (on_order_update self u) = self
   \<and> exit_calls (fst (on_order_update self u)) = []
   \<and> order_calls (fst (on_order_update self u)) = []"
  by (simp add: on_new_order_book_def on_new_ticker_def on_new_public_trades_def
      on_new_funds_def on_order_update_def Let_def)

text \<open>
  C9. After any sequence of calls on a freshly constructed plugin,
  \<^verbatim>\<open>waiting_cancel_order_id\<close> is still \<^verbatim>\<open>None\<close>, and \<^verbatim>\<open>on_cancel_order_success\<close> with any
  integer order id then calls \<^verbatim>\<open>exit\<close> not at all: it only prints its first line.
\<close>

theorem cancel_success_never_exits:
  "waiting_cancel_order_id (run Strategy_init cs) = None
   \<and> exit_calls (fst (on_cancel_order_success (run Strategy_init cs) oid canceled_order)) = []
   \<and> fst (on_cancel_order_success (run Strategy_init cs) oid canceled_order)
       = [Print [Str ''Strategy cancel order success'']]"
  by (simp add: run_waiting_cancel_order_id on_cancel_order_success_def Strategy_init_def)

text \<open>
  C10. \<^verbatim>\<open>__init__\<close> sets \<^verbatim>\<open>waiting_order_id\<close> to the integer 0. On a freshly constructed
  plugin, \<^verbatim>\<open>on_place_order_success(0, order)\<close> therefore takes the branch for the awaited
  order: it prints \<^verbatim>\<open>Had waiting order id\<close>.
\<close>

theorem fresh_place_success_zero_matches:
  "waiting_order_id Strategy_init = 0
   \<and> fst (on_place_order_success Strategy_init 0 placed_order)
       = [Print [Str ''Strategy place order success''], Print [Str ''Had waiting order id'']]"
  by (simp add: on_place_order_success_def Strategy_init_def)

end
